theory Spec2Isabelle
  imports Main "HOL-Library.Word"
begin

section \<open>The path record and its parser (FPathStructure.cpp)\<close>

text \<open>
  \<^verbatim>\<open>int32\<close> is a 32-bit word: \<open>*\<close> and \<open>+\<close> wrap around, \<open>sint\<close> reads the signed
  value. \<^verbatim>\<open>FString\<close> is a \<open>string\<close>; every character the parser tests is ASCII.
\<close>

type_synonym int32 = "32 word"

record FPathStructure =
  WorldName :: string
  LevelName :: string
  LevelIndex :: int32
  ActorName :: string
  ActorIndex :: int32
  ComponentNames :: "string list"
  ComponentIndices :: "int32 list"

datatype ECurrentFillingMode =
  World | Level | LevelIdx | Actor | ActorIdx | Component | ComponentIndex

subsection \<open>FPathStructure::TryParseInt\<close>

text \<open>
  The digit loop of \<^verbatim>\<open>TryParseInt\<close>: \<open>None\<close> is \<^verbatim>\<open>return false\<close>, \<open>Some r\<close> is
  \<^verbatim>\<open>return true\<close> with \<^verbatim>\<open>Result = r\<close>. The accumulator is an \<^verbatim>\<open>int32\<close> with no
  overflow check.
\<close>

fun TryParseInt_loop :: "string \<Rightarrow> int32 \<Rightarrow> int32 option" where
  "TryParseInt_loop [] Result = Some Result"
| "TryParseInt_loop (c # NumberString) Result =
     (if (of_char c :: nat) < of_char CHR ''0'' \<or> (of_char c :: nat) > of_char CHR ''9''
      then None
      else TryParseInt_loop NumberString
             (Result * 10 + of_nat (of_char c - of_char CHR ''0'')))"

definition TryParseInt :: "string \<Rightarrow> int32 option" where
  "TryParseInt NumberString = TryParseInt_loop NumberString 0"

subsection \<open>FPathStructure::TryParse\<close>

text \<open>
  The local variables of \<^verbatim>\<open>TryParse\<close>. The locals \<^verbatim>\<open>WorldName\<close>, \<^verbatim>\<open>LevelName\<close>,
  \<^verbatim>\<open>ActorName\<close>, \<^verbatim>\<open>ComponentNames\<close> and \<^verbatim>\<open>ComponentIndices\<close> carry the prefix \<open>l\<close>
  here, since the fields of \<open>FPathStructure\<close> have these names already.
\<close>

record TryParse_locals =
  lWorldName :: string
  lLevelName :: string
  LevelIndexNumber :: int32
  lActorName :: string
  ActorIndexNumber :: int32
  lComponentNames :: "string list"
  lComponentIndices :: "int32 list"
  WorldSection :: string
  LevelSection :: string
  ActorSection :: string
  ComponentSection :: string
  LevelIndexSection :: string
  ActorIndexSection :: string
  ComponentIndexSection :: string
  CurrentFillingMode :: ECurrentFillingMode
  SkipNext :: bool

definition TryParse_init :: TryParse_locals where
  "TryParse_init =
     \<lparr>lWorldName = [], lLevelName = [], LevelIndexNumber = 0, lActorName = [],
      ActorIndexNumber = 0, lComponentNames = [], lComponentIndices = [],
      WorldSection = [], LevelSection = [], ActorSection = [], ComponentSection = [],
      LevelIndexSection = [], ActorIndexSection = [], ComponentIndexSection = [],
      CurrentFillingMode = World, SkipNext = False\<rparr>"

text \<open>
  \<open>next_is d rest\<close> is \<^verbatim>\<open>i < Path.Len() - 1 and Path[i + 1] == d\<close>, where \<open>rest\<close>
  holds the characters after \<^verbatim>\<open>Path[i]\<close>.
\<close>

definition next_is :: "char \<Rightarrow> string \<Rightarrow> bool" where
  "next_is d rest = (case rest of [] \<Rightarrow> False | e # _ \<Rightarrow> e = d)"

text \<open>The seven appends that close the loop body: the mode picks the one that fires.\<close>

definition TryParse_append :: "TryParse_locals \<Rightarrow> char \<Rightarrow> TryParse_locals" where
  "TryParse_append s c =
     (case CurrentFillingMode s of
        World \<Rightarrow> s\<lparr>WorldSection := WorldSection s @ [c]\<rparr>
      | Level \<Rightarrow> s\<lparr>LevelSection := LevelSection s @ [c]\<rparr>
      | Actor \<Rightarrow> s\<lparr>ActorSection := ActorSection s @ [c]\<rparr>
      | Component \<Rightarrow> s\<lparr>ComponentSection := ComponentSection s @ [c]\<rparr>
      | LevelIdx \<Rightarrow> s\<lparr>LevelIndexSection := LevelIndexSection s @ [c]\<rparr>
      | ActorIdx \<Rightarrow> s\<lparr>ActorIndexSection := ActorIndexSection s @ [c]\<rparr>
      | ComponentIndex \<Rightarrow> s\<lparr>ComponentIndexSection := ComponentIndexSection s @ [c]\<rparr>)"

text \<open>
  One iteration of the loop at \<^verbatim>\<open>Path[i] = c\<close>, the rest of the path after it being
  \<open>rest\<close>. \<open>Inl\<close> is \<^verbatim>\<open>return false\<close> with the error message, \<open>Inr\<close> the locals
  after \<^verbatim>\<open>continue\<close> or the end of the body.
\<close>

definition TryParse_body :: "TryParse_locals \<Rightarrow> char \<Rightarrow> string \<Rightarrow> string + TryParse_locals" where
  "TryParse_body s c rest =
     (if SkipNext s then Inr (s\<lparr>SkipNext := False\<rparr>)
      else if c = CHR ''@'' then
        Inr (s\<lparr>lWorldName := WorldSection s, CurrentFillingMode := Level\<rparr>)
      else if next_is CHR ''/'' rest \<and> c = CHR '':'' then
        (case TryParseInt (LevelIndexSection s) of
           None \<Rightarrow> Inl (''Failed to parse level index: '' @ LevelIndexSection s)
         | Some v \<Rightarrow>
             Inr (s\<lparr>lLevelName := LevelSection s, LevelIndexNumber := v,
                    CurrentFillingMode := Actor, SkipNext := True\<rparr>))
      else if next_is CHR ''>'' rest \<and> c = CHR ''-'' then
        Inr (s\<lparr>CurrentFillingMode := Component, SkipNext := True\<rparr>)
      else if c = CHR ''['' \<and> CurrentFillingMode s = Level then
        Inr (s\<lparr>CurrentFillingMode := LevelIdx\<rparr>)
      else if c = CHR '']'' \<and> CurrentFillingMode s = LevelIdx then
        Inr (s\<lparr>CurrentFillingMode := Level\<rparr>)
      else if c = CHR ''['' \<and> CurrentFillingMode s = Actor then
        Inr (s\<lparr>CurrentFillingMode := ActorIdx\<rparr>)
      else if c = CHR '']'' \<and> CurrentFillingMode s = ActorIdx then
        (case TryParseInt (ActorIndexSection s) of
           None \<Rightarrow> Inl (''Failed to parse actor index: '' @ ActorIndexSection s)
         | Some v \<Rightarrow>
             Inr (s\<lparr>lActorName := ActorSection s, ActorIndexNumber := v,
                    CurrentFillingMode := Actor\<rparr>))
      else if c = CHR ''['' \<and> CurrentFillingMode s = Component then
        Inr (s\<lparr>CurrentFillingMode := ComponentIndex\<rparr>)
      else if c = CHR '']'' \<and> CurrentFillingMode s = ComponentIndex then
        Inr (s\<lparr>CurrentFillingMode := Component\<rparr>)
      else if c = CHR ''/'' \<and> CurrentFillingMode s = Component then
        (case TryParseInt (ComponentIndexSection s) of
           None \<Rightarrow> Inl (''Failed to parse component index: '' @ ComponentIndexSection s)
         | Some v \<Rightarrow>
             Inr (s\<lparr>lComponentNames := lComponentNames s @ [ComponentSection s],
                    lComponentIndices := lComponentIndices s @ [v],
                    ComponentSection := [], ComponentIndexSection := []\<rparr>))
      else Inr (TryParse_append s c))"

text \<open>The \<^verbatim>\<open>for\<close> loop over the path, from the locals \<open>s\<close> on the characters left.\<close>

fun TryParse_loop :: "TryParse_locals \<Rightarrow> string \<Rightarrow> string + TryParse_locals" where
  "TryParse_loop s [] = Inr s"
| "TryParse_loop s (c # rest) =
     (case TryParse_body s c rest of
        Inl ErrorMessage \<Rightarrow> Inl ErrorMessage
      | Inr s' \<Rightarrow> TryParse_loop s' rest)"

text \<open>
  \<^verbatim>\<open>TryParse\<close>: \<open>Inl ErrorMessage\<close> is \<^verbatim>\<open>return false\<close>, \<open>Inr Result\<close> is
  \<^verbatim>\<open>return true\<close>. Nothing follows the loop but the two checks and the copy into
  \<^verbatim>\<open>Result\<close>.
\<close>

definition TryParse :: "string \<Rightarrow> string + FPathStructure" where
  "TryParse Path =
     (case TryParse_loop TryParse_init Path of
        Inl ErrorMessage \<Rightarrow> Inl ErrorMessage
      | Inr s \<Rightarrow>
          if lWorldName s = [] \<or> lLevelName s = [] \<or> lActorName s = [] then
            Inl ''Missing required path components''
          else if length (lComponentNames s) \<noteq> length (lComponentIndices s) then
            Inl ''Component names and indices must be the same length''
          else
            Inr \<lparr>WorldName = lWorldName s, LevelName = lLevelName s,
                 LevelIndex = LevelIndexNumber s, ActorName = lActorName s,
                 ActorIndex = ActorIndexNumber s, ComponentNames = lComponentNames s,
                 ComponentIndices = lComponentIndices s\<rparr>)"

subsection \<open>Decimal digits, as the spec words them\<close>

definition is_digit :: "char \<Rightarrow> bool" where
  "is_digit c =
     ((of_char CHR ''0'' :: nat) \<le> of_char c \<and> (of_char c :: nat) \<le> of_char CHR ''9'')"

text \<open>The value of a string of digits read in base ten, with no bound.\<close>

definition decimal_value :: "string \<Rightarrow> nat" where
  "decimal_value s = foldl (\<lambda>a c. 10 * a + (of_char c - of_char CHR ''0'')) 0 s"

section \<open>The engine's strings and pointers\<close>

text \<open>
  The comparison of an \<^verbatim>\<open>FString\<close> with a \<^verbatim>\<open>const TCHAR*\<close> by \<^verbatim>\<open>==\<close> and \<^verbatim>\<open>!=\<close>, which
  the resolver uses on the sentinels and on every name, is the engine's
  \<^verbatim>\<open>FCString::Stricmp\<close>: it ignores the case of the ASCII letters. \<open>FString_eq a b\<close> is
  \<^verbatim>\<open>a == b\<close>, its negation \<^verbatim>\<open>a != b\<close>. An \<^verbatim>\<open>FString\<close> holds no NUL character before its
  end, so the C strings that \<^verbatim>\<open>Stricmp\<close> reads are the whole strings. (The tests
  \<^verbatim>\<open>Path[i] == '@'\<close> of the parser compare single characters and are exact.)
\<close>

definition LowerAscii :: "char \<Rightarrow> char" where
  "LowerAscii c =
     (if (of_char CHR ''A'' :: nat) \<le> of_char c \<and> (of_char c :: nat) \<le> of_char CHR ''Z''
      then char_of (of_char c + (32 :: nat)) else c)"

definition FString_eq :: "string \<Rightarrow> string \<Rightarrow> bool" where
  "FString_eq a b = (map LowerAscii a = map LowerAscii b)"

text \<open>
  What ends a call other than a \<^verbatim>\<open>return\<close>: an \<^verbatim>\<open>FString\<close> thrown, or a null pointer
  dereferenced without a test.
\<close>

datatype failure = Thrown string | NullDereference

section \<open>The scene graph\<close>

text \<open>
  Every host object has a name (\<^verbatim>\<open>GetName()\<close>) and an identity
  (\<^verbatim>\<open>GetUniqueID()\<close>, one per live object). A pointer to an object is \<open>Some\<close> of the
  object's record, the null pointer is \<open>None\<close>; two pointers are equal when these
  values are. The arrays of the host hold pointers, which may be null:
  \<^verbatim>\<open>World->PersistentLevel\<close>, \<^verbatim>\<open>World->GetLevels()\<close>, \<^verbatim>\<open>Level->Actors\<close> and
  \<open>Components\<close>, which is \<^verbatim>\<open>GetComponents().Array()\<close> in whatever order the host's
  set gives. \<open>IsSceneComponent\<close> says that \<^verbatim>\<open>Cast<USceneComponent>\<close> succeeds.
\<close>

record UObject =
  Name :: string
  UniqueID :: nat

record UActorComponent = UObject +
  IsSceneComponent :: bool

record AActor = UObject +
  Components :: "UActorComponent option list"

record ULevel = UObject +
  Actors :: "AActor option list"

record UWorld = UObject +
  PersistentLevel :: "ULevel option"
  GetLevels :: "ULevel option list"

text \<open>
  What the code asks of the engine beyond the arrays above: the three \<^verbatim>\<open>FindObject\<close>
  lookups and the back references of an object, each of which may be null.
\<close>

record Host =
  FindObject_UWorld :: "string \<Rightarrow> UWorld option"
  FindObject_ULevel :: "UWorld \<Rightarrow> string \<Rightarrow> ULevel option"
  FindObject_AActor :: "ULevel \<Rightarrow> string \<Rightarrow> AActor option"
  Level_GetWorld :: "ULevel \<Rightarrow> UWorld option"
  Actor_GetWorld :: "AActor \<Rightarrow> UWorld option"
  Actor_GetLevel :: "AActor \<Rightarrow> ULevel option"
  Component_GetWorld :: "UActorComponent \<Rightarrow> UWorld option"
  GetComponentLevel :: "UActorComponent \<Rightarrow> ULevel option"
  GetOwner :: "UActorComponent \<Rightarrow> AActor option"
  GetAttachParent :: "UActorComponent \<Rightarrow> UActorComponent option"

text \<open>
  The three helpers take a pointer that their callers have found not to be null, or
  have dereferenced already.
\<close>

definition GetAllLevelsInWorld :: "UWorld \<Rightarrow> ULevel option list" where
  "GetAllLevelsInWorld W = [PersistentLevel W] @ GetLevels W"

definition GetAllActorsInLevel :: "ULevel \<Rightarrow> AActor option list" where
  "GetAllActorsInLevel L = Actors L"

text \<open>
  \<^verbatim>\<open>Results.Sort\<close> by \<^verbatim>\<open>GetUniqueID()\<close>, ascending. The predicate takes references, so
  the sort dereferences the pointers it compares: an array of fewer than two entries
  is left as it is, and in a longer one every entry is compared, a null one with a
  crash. The ids of live objects differ, so the sorted array is the same whatever the
  sorting algorithm.
\<close>

definition GetAllComponentsInActor :: "AActor \<Rightarrow> failure + UActorComponent option list" where
  "GetAllComponentsInActor A =
     (if length (Components A) < 2 then Inr (Components A)
      else case those (Components A) of
        None \<Rightarrow> Inl NullDereference
      | Some Cs \<Rightarrow> Inr (map Some (sort_key UniqueID Cs)))"

section \<open>The resolver (UWorldNavigator.cpp)\<close>

text \<open>
  The scan the resolver repeats for levels, actors and components:
  \<^verbatim>\<open>for (auto X : Xs) { if (<skip X>) continue;
       if (sameNumberHit == Index) { Matching = X; break; } sameNumberHit += 1; }\<close>
  It returns \<^verbatim>\<open>Matching\<close> and \<^verbatim>\<open>sameNumberHit\<close> as the loop leaves them, or the failure
  of the test \<open>skip\<close>, which dereferences \<open>X\<close>.
  \<^verbatim>\<open>sameNumberHit\<close> counts entries of one array, whose length is an \<^verbatim>\<open>int32\<close>, so it
  never overflows and is an \<open>int\<close> here; the index it is compared with is the signed
  value of the record's \<^verbatim>\<open>int32\<close>.
\<close>

fun FindMatching ::
  "('a option \<Rightarrow> failure + bool) \<Rightarrow> int \<Rightarrow> 'a option list \<Rightarrow> 'a option \<Rightarrow> int \<Rightarrow>
   failure + ('a option \<times> int)" where
  "FindMatching skip Index [] Matching sameNumberHit = Inr (Matching, sameNumberHit)"
| "FindMatching skip Index (X # Xs) Matching sameNumberHit =
     (case skip X of
        Inl e \<Rightarrow> Inl e
      | Inr s \<Rightarrow>
          if s then FindMatching skip Index Xs Matching sameNumberHit
          else if sameNumberHit = Index then Inr (X, sameNumberHit)
          else FindMatching skip Index Xs Matching (sameNumberHit + 1))"

text \<open>
  The test \<^verbatim>\<open>X->GetName() != *N\<close> of the scans over levels, actors and actor
  components: a null \<open>X\<close> is dereferenced.
\<close>

definition other_name :: "'a UObject_scheme option \<Rightarrow> string \<Rightarrow> failure + bool" where
  "other_name X N =
     (case X of None \<Rightarrow> Inl NullDereference | Some x \<Rightarrow> Inr (\<not> FString_eq (Name x) N))"

definition skip_ActorComponent :: "UActorComponent option \<Rightarrow> string \<Rightarrow> failure + bool" where
  "skip_ActorComponent C ComponentName = other_name C ComponentName"

text \<open>
  The scan of \<^verbatim>\<open>FindSceneComponentByPath\<close> tests the name inside
  \<^verbatim>\<open>if (USceneComponent* SceneComponent = Cast<USceneComponent>(Component))\<close>; the cast
  of a null pointer, or of a component that is no scene component, is null, and the
  scan passes on.
\<close>

definition skip_SceneComponent :: "UActorComponent option \<Rightarrow> string \<Rightarrow> failure + bool" where
  "skip_SceneComponent C ComponentName =
     (case C of
        None \<Rightarrow> Inr True
      | Some c \<Rightarrow> if IsSceneComponent c then other_name C ComponentName else Inr True)"

text \<open>
  The loop over the component steps,
  \<^verbatim>\<open>for (int32 i = 0; i < Result.ComponentNames.Num(); ++i)\<close>, on the steps left
  (names and indices have the same length once the first \<^verbatim>\<open>throw\<close> is passed), and the
  return after it. \<open>skip C ComponentName\<close> is the test that makes the inner scan pass
  over \<open>C\<close>. \<^verbatim>\<open>MatchingComponent\<close> is declared before the loop and not reset in it.
\<close>

fun ComponentWalk ::
  "(UActorComponent option \<Rightarrow> string \<Rightarrow> failure + bool) \<Rightarrow> UActorComponent option list \<Rightarrow>
   (string \<times> int32) list \<Rightarrow> UActorComponent option \<Rightarrow> failure + UActorComponent option" where
  "ComponentWalk skip Cs [] MatchingComponent = Inr MatchingComponent"
| "ComponentWalk skip Cs ((ComponentName, Index) # steps) MatchingComponent =
     (case FindMatching (\<lambda>C. skip C ComponentName) (sint Index) Cs MatchingComponent 0 of
        Inl e \<Rightarrow> Inl e
      | Inr (MatchingComponent', sameNumberHit) \<Rightarrow>
          if sameNumberHit < sint Index then Inr None
          else ComponentWalk skip Cs steps MatchingComponent')"

text \<open>
  \<^verbatim>\<open>FPathStructure Result;\<close> has empty strings and arrays; its two \<^verbatim>\<open>int32\<close> members are
  not initialised, so they are parameters. \<^verbatim>\<open>TryParse\<close> writes \<^verbatim>\<open>Result\<close> only when it
  succeeds; when it fails the resolver logs the message and goes on with this record.
\<close>

definition Uninitialised_Result :: "int32 \<Rightarrow> int32 \<Rightarrow> FPathStructure" where
  "Uninitialised_Result li ai =
     \<lparr>WorldName = [], LevelName = [], LevelIndex = li, ActorName = [], ActorIndex = ai,
      ComponentNames = [], ComponentIndices = []\<rparr>"

text \<open>The parse inside a resolver: the \<^verbatim>\<open>UE_LOG\<close> lines it emits, and \<^verbatim>\<open>Result\<close>.\<close>

definition ParseAndLog :: "int32 \<Rightarrow> int32 \<Rightarrow> string \<Rightarrow> string list \<times> FPathStructure" where
  "ParseAndLog li ai Path =
     (case TryParse Path of
        Inl ErrorMessage \<Rightarrow> ([ErrorMessage], Uninitialised_Result li ai)
      | Inr Result \<Rightarrow> ([], Result))"

text \<open>
  What a resolver of components gives: the log, and either the failure that ends the
  call (\<open>Inl\<close>) or the pointer it returns (\<open>Inr\<close>, \<open>None\<close> for \<^verbatim>\<open>nullptr\<close>).
\<close>

type_synonym 'a resolved = "string list \<times> (failure + 'a option)"

text \<open>
  \<^verbatim>\<open>FindActorComponentByPath\<close> and \<^verbatim>\<open>FindSceneComponentByPath\<close> have the same body but
  for the arity test (\<open>bad_arity\<close> with its message) and the inner scan (\<open>skip\<close>).
  \<open>LocateActor\<close> is the body from \<^verbatim>\<open>FindObject<UWorld>\<close> to the test of
  \<^verbatim>\<open>MatchingActor\<close>: the world by its name, the level and the actor by the scan;
  \<open>Inr None\<close> is one of the three \<^verbatim>\<open>return nullptr\<close>, \<open>Inr (Some A)\<close> the actor with
  which the body goes on.
\<close>

definition LocateActor :: "Host \<Rightarrow> FPathStructure \<Rightarrow> failure + AActor option" where
  "LocateActor h Result =
     (case FindObject_UWorld h (WorldName Result) of
        None \<Rightarrow> Inr None
      | Some W \<Rightarrow>
          (case FindMatching (\<lambda>L. other_name L (LevelName Result)) (sint (LevelIndex Result))
                  (GetAllLevelsInWorld W) None 0 of
             Inl e \<Rightarrow> Inl e
           | Inr (None, _) \<Rightarrow> Inr None
           | Inr (Some MatchingLevel, _) \<Rightarrow>
               (case FindMatching (\<lambda>A. other_name A (ActorName Result))
                       (sint (ActorIndex Result)) (GetAllActorsInLevel MatchingLevel) None 0 of
                  Inl e \<Rightarrow> Inl e
                | Inr (MatchingActor, _) \<Rightarrow> Inr MatchingActor)))"

text \<open>
  \<open>ComponentStage\<close> is the body from \<^verbatim>\<open>GetAllComponentsInActor(MatchingActor)\<close> on:
  the sorted components, the two \<^verbatim>\<open>throw\<close>, then the walk over the steps.
\<close>

definition ComponentStage ::
  "(nat \<Rightarrow> bool) \<Rightarrow> string \<Rightarrow> (UActorComponent option \<Rightarrow> string \<Rightarrow> failure + bool) \<Rightarrow>
   string list \<Rightarrow> FPathStructure \<Rightarrow> AActor \<Rightarrow> UActorComponent resolved" where
  "ComponentStage bad_arity message skip log Result MatchingActor =
     (case GetAllComponentsInActor MatchingActor of
        Inl e \<Rightarrow> (log, Inl e)
      | Inr Cs \<Rightarrow>
          if length (ComponentNames Result) \<noteq> length (ComponentIndices Result) then
            (log, Inl (Thrown ''Component names and indices must be the same length''))
          else if bad_arity (length (ComponentNames Result)) then
            (log, Inl (Thrown message))
          else
            (log, ComponentWalk skip Cs
                    (zip (ComponentNames Result) (ComponentIndices Result)) None))"

definition Resolve ::
  "(nat \<Rightarrow> bool) \<Rightarrow> string \<Rightarrow> (UActorComponent option \<Rightarrow> string \<Rightarrow> failure + bool) \<Rightarrow>
   Host \<Rightarrow> string list \<Rightarrow> FPathStructure \<Rightarrow> UActorComponent resolved" where
  "Resolve bad_arity message skip h log Result =
     (case LocateActor h Result of
        Inl e \<Rightarrow> (log, Inl e)
      | Inr None \<Rightarrow> (log, Inr None)
      | Inr (Some MatchingActor) \<Rightarrow>
          ComponentStage bad_arity message skip log Result MatchingActor)"

text \<open>
  The four tests that open \<^verbatim>\<open>FindActorComponentByPath\<close> and
  \<^verbatim>\<open>FindSceneComponentByPath\<close>: \<^verbatim>\<open>Path.IsEmpty()\<close> and the three sentinels.
\<close>

definition is_sentinel :: "string \<Rightarrow> bool" where
  "is_sentinel Path =
     (Path = [] \<or> FString_eq Path ''[invalid world]'' \<or> FString_eq Path ''[invalid level]'' \<or>
      FString_eq Path ''[invalid actor]'')"

definition FindActorComponentByPath ::
  "Host \<Rightarrow> int32 \<Rightarrow> int32 \<Rightarrow> string \<Rightarrow> UActorComponent resolved" where
  "FindActorComponentByPath h li ai Path =
     (if is_sentinel Path then ([], Inr None)
      else case ParseAndLog li ai Path of
        (log, Result) \<Rightarrow>
          Resolve (\<lambda>n. n \<noteq> 1) ''Only one component layer should be specified''
            skip_ActorComponent h log Result)"

definition FindSceneComponentByPath ::
  "Host \<Rightarrow> int32 \<Rightarrow> int32 \<Rightarrow> string \<Rightarrow> UActorComponent resolved" where
  "FindSceneComponentByPath h li ai Path =
     (if is_sentinel Path then ([], Inr None)
      else case ParseAndLog li ai Path of
        (log, Result) \<Rightarrow>
          Resolve (\<lambda>n. n = 0) ''At least one component layer should be specified''
            skip_SceneComponent h log Result)"

text \<open>
  \<^verbatim>\<open>FindUActorByPath\<close> tests the empty path, \<^verbatim>\<open>[invalid world]\<close> and
  \<^verbatim>\<open>[invalid level]\<close> only, reads no array and never throws: the log and the pointer.
\<close>

definition FindUActorByPath :: "Host \<Rightarrow> int32 \<Rightarrow> int32 \<Rightarrow> string \<Rightarrow> string list \<times> AActor option" where
  "FindUActorByPath h li ai Path =
     (if Path = [] then ([], None)
      else if FString_eq Path ''[invalid world]'' then ([], None)
      else if FString_eq Path ''[invalid level]'' then ([], None)
      else case ParseAndLog li ai Path of
        (log, Result) \<Rightarrow>
          (case FindObject_UWorld h (WorldName Result) of
             None \<Rightarrow> (log, None)
           | Some W \<Rightarrow>
               (case FindObject_ULevel h W (LevelName Result) of
                  None \<Rightarrow> (log, None)
                | Some L \<Rightarrow>
                    (case FindObject_AActor h L (ActorName Result) of
                       None \<Rightarrow> (log, None)
                     | Some A \<Rightarrow> (log, Some A)))))"

section \<open>The formatter (UWorldNavigator.cpp)\<close>

text \<open>\<^verbatim>\<open>%d\<close> of \<^verbatim>\<open>FString::Printf\<close>: the decimal digits of an integer, with its sign.\<close>

definition digit_char :: "nat \<Rightarrow> char" where
  "digit_char d = ''0123456789'' ! d"

fun nat_digits :: "nat \<Rightarrow> string" where
  "nat_digits n =
     (if n < 10 then [digit_char n] else nat_digits (n div 10) @ [digit_char (n mod 10)])"

definition Printf_d :: "int \<Rightarrow> string" where
  "Printf_d k = (if k < 0 then CHR ''-'' # nat_digits (nat (- k)) else nat_digits (nat k))"

text \<open>\<^verbatim>\<open>FString::Join\<close>.\<close>

fun Join :: "string list \<Rightarrow> string \<Rightarrow> string" where
  "Join [] Separator = []"
| "Join [x] Separator = x"
| "Join (x # y # ys) Separator = x @ Separator @ Join (y # ys) Separator"

text \<open>
  The search \<^verbatim>\<open>for (int32 i = 0; i < Xs.Num(); ++i) if (Xs[i] == X) return i;
  return -1;\<close> of \<^verbatim>\<open>GetIndexOfSameLevel\<close> and of the two \<^verbatim>\<open>GetIndexOfSameComponent\<close>,
  from the index \<open>i\<close> on the entries left. It compares pointers and dereferences none.
\<close>

fun IndexOfSame_loop :: "'a list \<Rightarrow> 'a \<Rightarrow> int \<Rightarrow> int" where
  "IndexOfSame_loop [] X i = - 1"
| "IndexOfSame_loop (Y # Ys) X i = (if Y = X then i else IndexOfSame_loop Ys X (i + 1))"

definition GetIndexOfSameLevel :: "Host \<Rightarrow> ULevel \<Rightarrow> failure + int" where
  "GetIndexOfSameLevel h L =
     (case Level_GetWorld h L of
        None \<Rightarrow> Inl NullDereference
      | Some W \<Rightarrow> Inr (IndexOfSame_loop (GetAllLevelsInWorld W) (Some L) 0))"

text \<open>
  \<^verbatim>\<open>GetIndexOfSameActor\<close>: the outer loop runs over the levels, the inner one looks for
  the actor in \<^verbatim>\<open>Levels[i]->Actors\<close> and returns the index \<open>i\<close> of the level.
\<close>

fun GetIndexOfSameActor_loop :: "ULevel option list \<Rightarrow> AActor \<Rightarrow> int \<Rightarrow> failure + int" where
  "GetIndexOfSameActor_loop [] A i = Inr (- 1)"
| "GetIndexOfSameActor_loop (L # Ls) A i =
     (case L of
        None \<Rightarrow> Inl NullDereference
      | Some l \<Rightarrow>
          if Some A \<in> set (GetAllActorsInLevel l) then Inr i
          else GetIndexOfSameActor_loop Ls A (i + 1))"

definition GetIndexOfSameActor :: "Host \<Rightarrow> AActor \<Rightarrow> failure + int" where
  "GetIndexOfSameActor h A =
     (case Actor_GetWorld h A of
        None \<Rightarrow> Inl NullDereference
      | Some W \<Rightarrow> GetIndexOfSameActor_loop (GetAllLevelsInWorld W) A 0)"

text \<open>
  \<^verbatim>\<open>GetIndexOfSameComponent\<close>: the overloads for \<^verbatim>\<open>UActorComponent*\<close> and
  \<^verbatim>\<open>USceneComponent*\<close> have the same body.
\<close>

definition GetIndexOfSameComponent :: "Host \<Rightarrow> UActorComponent \<Rightarrow> failure + int" where
  "GetIndexOfSameComponent h C =
     (case GetOwner h C of
        None \<Rightarrow> Inl NullDereference
      | Some A \<Rightarrow>
          (case GetAllComponentsInActor A of
             Inl e \<Rightarrow> Inl e
           | Inr Cs \<Rightarrow> Inr (IndexOfSame_loop Cs (Some C) 0)))"

text \<open>
  The \<^verbatim>\<open>while (true)\<close> of \<^verbatim>\<open>GetSceneComponentHierarchy\<close>, which follows
  \<^verbatim>\<open>GetAttachParent()\<close> until it is null. Nothing in the code bounds it, so it is a
  partial function: \<open>None\<close> is the loop that never leaves.
\<close>

partial_function (option) GetSceneComponentHierarchy_loop ::
  "Host \<Rightarrow> UActorComponent \<Rightarrow> string list \<Rightarrow> (failure + string list) option" where
  "GetSceneComponentHierarchy_loop h StartComponent Result =
     (case GetAttachParent h StartComponent of
        None \<Rightarrow> Some (Inr Result)
      | Some ParentComponent \<Rightarrow>
          (case GetIndexOfSameComponent h ParentComponent of
             Inl e \<Rightarrow> Some (Inl e)
           | Inr Index \<Rightarrow>
               GetSceneComponentHierarchy_loop h ParentComponent
                 (Result @ [Name ParentComponent @ ''['' @ Printf_d Index @ '']''])))"

declare GetSceneComponentHierarchy_loop.simps [code]

definition GetSceneComponentHierarchy :: "Host \<Rightarrow> UActorComponent \<Rightarrow> (failure + string list) option" where
  "GetSceneComponentHierarchy h C =
     (case GetIndexOfSameComponent h C of
        Inl e \<Rightarrow> Some (Inl e)
      | Inr StartComponentIndex \<Rightarrow>
          (case GetSceneComponentHierarchy_loop h C
                  [Name C @ ''['' @ Printf_d StartComponentIndex @ '']''] of
             None \<Rightarrow> None
           | Some (Inl e) \<Rightarrow> Some (Inl e)
           | Some (Inr Result) \<Rightarrow> Some (Inr (rev Result))))"

text \<open>
  The head \<^verbatim>\<open>"%s@%s[%d]:/%s[%d]"\<close> that the three \<^verbatim>\<open>GetWorldPath\<close> print, from the
  world, the level and the actor they have found.
\<close>

definition ActorPath :: "Host \<Rightarrow> UWorld \<Rightarrow> ULevel \<Rightarrow> AActor \<Rightarrow> failure + string" where
  "ActorPath h W L A =
     (case GetIndexOfSameLevel h L of
        Inl e \<Rightarrow> Inl e
      | Inr levelIndex \<Rightarrow>
          (case GetIndexOfSameActor h A of
             Inl e \<Rightarrow> Inl e
           | Inr actorIndex \<Rightarrow>
               Inr (Name W @ ''@'' @ Name L @ ''['' @ Printf_d levelIndex @ '']:/'' @
                    Name A @ ''['' @ Printf_d actorIndex @ '']'')))"

definition GetWorldPath_AActor :: "Host \<Rightarrow> AActor option \<Rightarrow> failure + string" where
  "GetWorldPath_AActor h ptr =
     (case ptr of
        None \<Rightarrow> Inr ''[invalid actor]''
      | Some A \<Rightarrow>
          (case Actor_GetWorld h A of
             None \<Rightarrow> Inr ''[invalid world]''
           | Some W \<Rightarrow>
               (case Actor_GetLevel h A of
                  None \<Rightarrow> Inr ''[invalid level]''
                | Some L \<Rightarrow> ActorPath h W L A)))"

definition GetWorldPath_USceneComponent :: "Host \<Rightarrow> UActorComponent option \<Rightarrow> (failure + string) option" where
  "GetWorldPath_USceneComponent h ptr =
     (case ptr of
        None \<Rightarrow> Some (Inr ''[null Component]'')
      | Some C \<Rightarrow>
          (case Component_GetWorld h C of
             None \<Rightarrow> Some (Inr ''[null World]'')
           | Some W \<Rightarrow>
               (case GetComponentLevel h C of
                  None \<Rightarrow> Some (Inr ''[null Level]'')
                | Some L \<Rightarrow>
                    (case GetOwner h C of
                       None \<Rightarrow> Some (Inr ''[null Actor]'')
                     | Some A \<Rightarrow>
                         (case ActorPath h W L A of
                            Inl e \<Rightarrow> Some (Inl e)
                          | Inr head \<Rightarrow>
                              (case GetSceneComponentHierarchy h C of
                                 None \<Rightarrow> None
                               | Some (Inl e) \<Rightarrow> Some (Inl e)
                               | Some (Inr ComponentHierarchy) \<Rightarrow>
                                   Some (Inr (head @ ''->'' @ Join ComponentHierarchy ''/''))))))))"

definition GetWorldPath_UActorComponent :: "Host \<Rightarrow> UActorComponent option \<Rightarrow> (failure + string) option" where
  "GetWorldPath_UActorComponent h ptr =
     (case ptr of
        None \<Rightarrow> Some (Inr ''[invalid component]'')
      | Some C \<Rightarrow>
          (case Component_GetWorld h C of
             None \<Rightarrow> Some (Inr ''[invalid world]'')
           | Some W \<Rightarrow>
               (case GetComponentLevel h C of
                  None \<Rightarrow> Some (Inr ''[invalid level]'')
                | Some L \<Rightarrow>
                    (case GetOwner h C of
                       None \<Rightarrow> Some (Inr ''[invalid actor]'')
                     | Some A \<Rightarrow>
                         if IsSceneComponent C then GetWorldPath_USceneComponent h (Some C)
                         else
                           (case ActorPath h W L A of
                              Inl e \<Rightarrow> Some (Inl e)
                            | Inr head \<Rightarrow>
                                (case GetIndexOfSameComponent h C of
                                   Inl e \<Rightarrow> Some (Inl e)
                                 | Inr Index \<Rightarrow>
                                     Some (Inr (head @ ''->'' @ Name C @ ''['' @
                                                Printf_d Index @ '']''))))))))"

section \<open>Definitions that follow the spec\<close>

text \<open>
  Modelled from the spec: the formatter of a path record (section 4.1, formatting
  contract) is not in the repository, whose \<^verbatim>\<open>GetWorldPath\<close> print live objects only.
  It writes the canonical surface syntax
  \<^verbatim>\<open><world>@<level>[<levelIndex>]:/<actor>[<actorIndex>]\<close>, followed, when there are
  component steps, by \<^verbatim>\<open>->\<close> and the steps \<^verbatim>\<open><name>[<index>]\<close> joined by \<^verbatim>\<open>/\<close>.
\<close>

definition format_record :: "FPathStructure \<Rightarrow> string" where
  "format_record r =
     WorldName r @ ''@'' @ LevelName r @ ''['' @ Printf_d (sint (LevelIndex r)) @ '']:/'' @
     ActorName r @ ''['' @ Printf_d (sint (ActorIndex r)) @ '']'' @
     (if ComponentNames r = [] then []
      else ''->'' @ Join (map (\<lambda>(n, i). n @ ''['' @ Printf_d (sint i) @ '']'')
                            (zip (ComponentNames r) (ComponentIndices r))) ''/'')"


text \<open>
  The spec's occurrence index of \<open>X\<close> in a list: the number of entries with the name
  of \<open>X\<close> before its first occurrence.
\<close>

definition occurrence_index :: "('a UObject_scheme) list \<Rightarrow> 'a UObject_scheme \<Rightarrow> nat" where
  "occurrence_index Xs X = length (filter (\<lambda>Y. Name Y = Name X) (takeWhile (\<lambda>Y. Y \<noteq> X) Xs))"

section \<open>Two small scenes\<close>

text \<open>
  The world \<^verbatim>\<open>W\<close> has one level, its persistent level \<^verbatim>\<open>L\<close>, which holds one actor
  \<^verbatim>\<open>A\<close> with three components: the scene components \<^verbatim>\<open>Root\<close> and \<^verbatim>\<open>Mesh\<close> (attached
  to \<^verbatim>\<open>Root\<close>) and the plain component \<^verbatim>\<open>Mover\<close>. The host's set hands them out in
  another order than that of their ids. The world \<^verbatim>\<open>W2\<close> has an empty persistent level
  \<^verbatim>\<open>P\<close> and the streaming level \<^verbatim>\<open>L\<close>.
\<close>

definition scene_Root :: UActorComponent where
  "scene_Root = \<lparr>Name = ''Root'', UniqueID = 1, IsSceneComponent = True\<rparr>"

definition scene_Mesh :: UActorComponent where
  "scene_Mesh = \<lparr>Name = ''Mesh'', UniqueID = 2, IsSceneComponent = True\<rparr>"

definition scene_Mover :: UActorComponent where
  "scene_Mover = \<lparr>Name = ''Mover'', UniqueID = 3, IsSceneComponent = False\<rparr>"

definition scene_A :: AActor where
  "scene_A =
     \<lparr>Name = ''A'', UniqueID = 10,
      Components = [Some scene_Mover, Some scene_Mesh, Some scene_Root]\<rparr>"

definition scene_L :: ULevel where
  "scene_L = \<lparr>Name = ''L'', UniqueID = 20, Actors = [Some scene_A]\<rparr>"

definition scene_P :: ULevel where
  "scene_P = \<lparr>Name = ''P'', UniqueID = 21, Actors = []\<rparr>"

definition scene_W :: UWorld where
  "scene_W = \<lparr>Name = ''W'', UniqueID = 30, PersistentLevel = Some scene_L, GetLevels = []\<rparr>"

definition scene_W2 :: UWorld where
  "scene_W2 =
     \<lparr>Name = ''W2'', UniqueID = 31, PersistentLevel = Some scene_P, GetLevels = [Some scene_L]\<rparr>"

definition scene_Host :: Host where
  "scene_Host =
     \<lparr>FindObject_UWorld =
        (\<lambda>n. if n = ''W'' then Some scene_W else if n = ''W2'' then Some scene_W2 else None),
      FindObject_ULevel = (\<lambda>W n. if n = ''L'' then Some scene_L else None),
      FindObject_AActor = (\<lambda>L n. if n = ''A'' then Some scene_A else None),
      Level_GetWorld = (\<lambda>L. Some scene_W),
      Actor_GetWorld = (\<lambda>A. Some scene_W),
      Actor_GetLevel = (\<lambda>A. Some scene_L),
      Component_GetWorld = (\<lambda>C. Some scene_W),
      GetComponentLevel = (\<lambda>C. Some scene_L),
      GetOwner = (\<lambda>C. Some scene_A),
      GetAttachParent = (\<lambda>C. if C = scene_Mesh then Some scene_Root else None)\<rparr>"

section \<open>Properties of the parser\<close>

subsection \<open>Words\<close>

lemma uint_of_nat_mod: "uint (of_nat n :: 'a::len word) = int n mod 2 ^ LENGTH('a)"
proof -
  have "(of_nat n :: 'a word) = word_of_int (int n)" by simp
  then show ?thesis by (simp only: uint_word_of_int)
qed

lemma sint_int32:
  "sint (w :: int32) = (if uint w < 2 ^ 31 then uint w else uint w - 2 ^ 32)"
proof -
  have b: "0 \<le> uint w" "uint w < 2 ^ 32"
    using uint_lt2p [of w] by simp_all
  have "sint w = (uint w + 2 ^ 31) mod 2 ^ 32 - 2 ^ 31"
    by (simp add: sint_uint signed_take_bit_eq_take_bit_shift take_bit_eq_mod)
  also have "\<dots> = (if uint w < 2 ^ 31 then uint w else uint w - 2 ^ 32)"
  proof (cases "uint w < 2 ^ 31")
    case True
    with b have "(uint w + 2 ^ 31) mod 2 ^ 32 = uint w + 2 ^ 31"
      by (intro mod_pos_pos_trivial) simp_all
    with True show ?thesis by simp
  next
    case False
    with b have "(uint w + 2 ^ 31) mod 2 ^ 32 = uint w + 2 ^ 31 - 2 ^ 32"
      by (simp add: mod_pos_geq)
    with False show ?thesis by simp
  qed
  finally show ?thesis .
qed

subsection \<open>The digit loop\<close>

lemma TryParseInt_loop_digits:
  "list_all is_digit s \<Longrightarrow>
   TryParseInt_loop s (of_nat n) =
     Some (of_nat (foldl (\<lambda>a c. 10 * a + (of_char c - of_char CHR ''0'')) n s))"
proof (induction s arbitrary: n)
  case Nil
  then show ?case by simp
next
  case (Cons c s)
  define d :: nat where "d = of_char c - of_char CHR ''0''"
  from Cons.prems have dg: "is_digit c" and r: "list_all is_digit s" by simp_all
  from dg have "TryParseInt_loop (c # s) (of_nat n) =
                TryParseInt_loop s (of_nat n * 10 + of_nat d)"
    by (simp add: is_digit_def d_def not_less)
  also have "(of_nat n :: int32) * 10 + of_nat d = of_nat (10 * n + d)"
    by simp
  also have "TryParseInt_loop s (of_nat (10 * n + d)) =
             Some (of_nat (foldl (\<lambda>a c. 10 * a + (of_char c - of_char CHR ''0'')) (10 * n + d) s))"
    by (rule Cons.IH [OF r])
  finally show ?case by (simp add: d_def)
qed

lemma TryParseInt_loop_nondigit:
  "\<not> list_all is_digit s \<Longrightarrow> TryParseInt_loop s acc = None"
  by (induction s arbitrary: acc) (auto simp: is_digit_def)

lemma TryParseInt_digits:
  "list_all is_digit s \<Longrightarrow> TryParseInt s = Some (of_nat (decimal_value s))"
  using TryParseInt_loop_digits [of s 0] by (simp add: TryParseInt_def decimal_value_def)

lemma TryParseInt_nondigit: "\<not> list_all is_digit s \<Longrightarrow> TryParseInt s = None"
  by (simp add: TryParseInt_def TryParseInt_loop_nondigit)

subsection \<open>The last component step\<close>

text \<open>
  C1. The claim: when the parse ends in mode Component, \<^verbatim>\<open>TryParse\<close> commits a last step
  from the pending Component and ComponentIndex buffers, so that
  \<^verbatim>\<open>MyWorld@Main[0]:/Player[0]->Mesh[0]\<close> gives the steps \<^verbatim>\<open>[("Mesh", 0)]\<close>. The code
  commits a step at a \<^verbatim>\<open>/\<close> only and does nothing with the buffers after the loop: on
  this path it succeeds with no component step at all.
\<close>

theorem TryParse_drops_final_step:
  "TryParse ''MyWorld@Main[0]:/Player[0]->Mesh[0]'' =
     Inr \<lparr>WorldName = ''MyWorld'', LevelName = ''Main'', LevelIndex = 0,
          ActorName = ''Player'', ActorIndex = 0, ComponentNames = [], ComponentIndices = []\<rparr>"
  by code_simp

text \<open>
  C2. The claim: a record that a successful parse gives is parsed back from its
  canonical text. The record of \<^verbatim>\<open>W@L[0]:/A[0]->C[0]/\<close> has the step \<^verbatim>\<open>("C", 0)\<close>;
  its canonical text is \<^verbatim>\<open>W@L[0]:/A[0]->C[0]\<close>, which the code parses to a record with
  no step, for the reason seen in C1.
\<close>

theorem format_record_reparse_differs:
  "TryParse ''W@L[0]:/A[0]->C[0]/'' =
     Inr \<lparr>WorldName = ''W'', LevelName = ''L'', LevelIndex = 0, ActorName = ''A'',
          ActorIndex = 0, ComponentNames = [''C''], ComponentIndices = [0]\<rparr> \<and>
   format_record \<lparr>WorldName = ''W'', LevelName = ''L'', LevelIndex = 0, ActorName = ''A'',
          ActorIndex = 0, ComponentNames = [''C''], ComponentIndices = [0]\<rparr> =
     ''W@L[0]:/A[0]->C[0]'' \<and>
   TryParse (format_record \<lparr>WorldName = ''W'', LevelName = ''L'', LevelIndex = 0,
          ActorName = ''A'', ActorIndex = 0, ComponentNames = [''C''],
          ComponentIndices = [0]\<rparr>) =
     Inr \<lparr>WorldName = ''W'', LevelName = ''L'', LevelIndex = 0, ActorName = ''A'',
          ActorIndex = 0, ComponentNames = [], ComponentIndices = []\<rparr> \<and>
   TryParse (format_record \<lparr>WorldName = ''W'', LevelName = ''L'', LevelIndex = 0,
          ActorName = ''A'', ActorIndex = 0, ComponentNames = [''C''],
          ComponentIndices = [0]\<rparr>) \<noteq>
     Inr \<lparr>WorldName = ''W'', LevelName = ''L'', LevelIndex = 0, ActorName = ''A'',
          ActorIndex = 0, ComponentNames = [''C''], ComponentIndices = [0]\<rparr>"
proof -
  have f: "format_record \<lparr>WorldName = ''W'', LevelName = ''L'', LevelIndex = 0,
             ActorName = ''A'', ActorIndex = 0, ComponentNames = [''C''],
             ComponentIndices = [0]\<rparr> = ''W@L[0]:/A[0]->C[0]''"
    by code_simp
  have p1: "TryParse ''W@L[0]:/A[0]->C[0]/'' =
     Inr \<lparr>WorldName = ''W'', LevelName = ''L'', LevelIndex = 0, ActorName = ''A'',
          ActorIndex = 0, ComponentNames = [''C''], ComponentIndices = [0]\<rparr>"
    by code_simp
  have p2: "TryParse ''W@L[0]:/A[0]->C[0]'' =
     Inr \<lparr>WorldName = ''W'', LevelName = ''L'', LevelIndex = 0, ActorName = ''A'',
          ActorIndex = 0, ComponentNames = [], ComponentIndices = []\<rparr>"
    by code_simp
  show ?thesis by (simp add: f p1 p2)
qed

subsection \<open>Index buffers\<close>

text \<open>
  C7. The claim: a path with a non-digit inside any bracketed index field fails to
  parse, with an error that names the field. The code gives an index buffer to
  \<^verbatim>\<open>TryParseInt\<close> where it commits it, and it commits a component index at a \<^verbatim>\<open>/\<close>
  only: the index of the last step is pending when the loop ends and is never tested,
  for the reason seen in C1. \<^verbatim>\<open>W@L[0]:/A[0]->C[x]\<close> parses; the same step followed by
  \<^verbatim>\<open>/\<close> is refused with the error of the component index.
\<close>

theorem TryParse_accepts_nondigit_last_index:
  "TryParse ''W@L[0]:/A[0]->C[x]'' =
     Inr \<lparr>WorldName = ''W'', LevelName = ''L'', LevelIndex = 0, ActorName = ''A'',
          ActorIndex = 0, ComponentNames = [], ComponentIndices = []\<rparr> \<and>
   TryParse ''W@L[0]:/A[0]->C[x]/'' = Inl ''Failed to parse component index: x''"
  by code_simp

text \<open>
  C9. An index buffer that is empty when it is committed is accepted, and the index
  stored is 0: the digit loop returns 0 on the empty string, and each of the three
  commits (level, actor, component) goes through and stores it. In particular
  \<^verbatim>\<open>W@L[]:/A[0]->C[0]\<close> parses, with level index 0.
\<close>

theorem TryParse_empty_index_is_zero:
  "TryParseInt [] = Some 0 \<and>
   (\<not> SkipNext s \<and> LevelIndexSection s = [] \<longrightarrow>
      TryParse_body s CHR '':'' (CHR ''/'' # rest) =
        Inr (s\<lparr>lLevelName := LevelSection s, LevelIndexNumber := 0,
               CurrentFillingMode := Actor, SkipNext := True\<rparr>)) \<and>
   (\<not> SkipNext s \<and> CurrentFillingMode s = ActorIdx \<and> ActorIndexSection s = [] \<longrightarrow>
      TryParse_body s CHR '']'' rest =
        Inr (s\<lparr>lActorName := ActorSection s, ActorIndexNumber := 0,
               CurrentFillingMode := Actor\<rparr>)) \<and>
   (\<not> SkipNext s \<and> CurrentFillingMode s = Component \<and> ComponentIndexSection s = [] \<longrightarrow>
      TryParse_body s CHR ''/'' rest =
        Inr (s\<lparr>lComponentNames := lComponentNames s @ [ComponentSection s],
               lComponentIndices := lComponentIndices s @ [0],
               ComponentSection := [], ComponentIndexSection := []\<rparr>)) \<and>
   (\<exists>r. TryParse ''W@L[]:/A[0]->C[0]'' = Inr r \<and> LevelIndex r = 0)"
proof -
  have z: "TryParseInt [] = Some 0" by (simp add: TryParseInt_def)
  have p: "TryParse ''W@L[]:/A[0]->C[0]'' =
             Inr \<lparr>WorldName = ''W'', LevelName = ''L'', LevelIndex = 0, ActorName = ''A'',
                  ActorIndex = 0, ComponentNames = [], ComponentIndices = []\<rparr>"
    by code_simp
  show ?thesis
    using z by (simp add: p TryParse_body_def next_is_def)
qed

theorem TryParse_empty_index_is_zero_witness:
  "(\<not> SkipNext (TryParse_init\<lparr>CurrentFillingMode := Level\<rparr>) \<and>
    LevelIndexSection (TryParse_init\<lparr>CurrentFillingMode := Level\<rparr>) = [] \<and>
    (\<exists>s'. TryParse_body (TryParse_init\<lparr>CurrentFillingMode := Level\<rparr>) CHR '':'' ''/A'' = Inr s' \<and>
          LevelIndexNumber s' = 0)) \<and>
   (\<not> SkipNext (TryParse_init\<lparr>CurrentFillingMode := ActorIdx\<rparr>) \<and>
    CurrentFillingMode (TryParse_init\<lparr>CurrentFillingMode := ActorIdx\<rparr>) = ActorIdx \<and>
    ActorIndexSection (TryParse_init\<lparr>CurrentFillingMode := ActorIdx\<rparr>) = [] \<and>
    (\<exists>s'. TryParse_body (TryParse_init\<lparr>CurrentFillingMode := ActorIdx\<rparr>) CHR '']'' [] = Inr s' \<and>
          ActorIndexNumber s' = 0)) \<and>
   (\<not> SkipNext (TryParse_init\<lparr>CurrentFillingMode := Component\<rparr>) \<and>
    CurrentFillingMode (TryParse_init\<lparr>CurrentFillingMode := Component\<rparr>) = Component \<and>
    ComponentIndexSection (TryParse_init\<lparr>CurrentFillingMode := Component\<rparr>) = [] \<and>
    (\<exists>s'. TryParse_body (TryParse_init\<lparr>CurrentFillingMode := Component\<rparr>) CHR ''/'' ''D'' = Inr s' \<and>
          lComponentIndices s' = [0]))"
  using TryParse_empty_index_is_zero [of "TryParse_init\<lparr>CurrentFillingMode := Level\<rparr>" "''A''"]
    TryParse_empty_index_is_zero [of "TryParse_init\<lparr>CurrentFillingMode := ActorIdx\<rparr>" "[]"]
    TryParse_empty_index_is_zero [of "TryParse_init\<lparr>CurrentFillingMode := Component\<rparr>" "''D''"]
  by (simp add: TryParse_init_def)

text \<open>
  C10. \<^verbatim>\<open>TryParseInt\<close> has no overflow check: on every string of digits it succeeds,
  and its result is the decimal value reduced modulo \<open>2 ^ 32\<close> and read as a signed
  32-bit integer. So an index of at least \<open>2 ^ 31\<close> is stored negative: the level index
  of \<^verbatim>\<open>W@L[3000000000]:/A[0]\<close> is \<open>-1294967296\<close>.
\<close>

theorem TryParseInt_wraps:
  "(list_all is_digit s \<longrightarrow>
      (\<exists>r. TryParseInt s = Some r \<and> uint r = int (decimal_value s) mod 2 ^ 32 \<and>
           sint r = (if uint r < 2 ^ 31 then uint r else uint r - 2 ^ 32))) \<and>
   (\<exists>r. TryParse ''W@L[3000000000]:/A[0]'' = Inr r \<and> sint (LevelIndex r) = - 1294967296)"
proof -
  have p: "TryParse ''W@L[3000000000]:/A[0]'' =
             Inr \<lparr>WorldName = ''W'', LevelName = ''L'', LevelIndex = 3000000000, ActorName = ''A'',
                  ActorIndex = 0, ComponentNames = [], ComponentIndices = []\<rparr>"
    by code_simp
  have g: "list_all is_digit s \<Longrightarrow>
      \<exists>r. TryParseInt s = Some r \<and> uint r = int (decimal_value s) mod 2 ^ 32 \<and>
           sint r = (if uint r < 2 ^ 31 then uint r else uint r - 2 ^ 32)"
    using uint_of_nat_mod [where 'a = 32, of "decimal_value s"]
      sint_int32 [of "of_nat (decimal_value s)"]
    by (simp add: TryParseInt_digits)
  show ?thesis using g by (simp add: p)
qed

theorem TryParseInt_wraps_witness:
  "list_all is_digit ''3000000000'' \<and>
   (\<exists>r. TryParseInt ''3000000000'' = Some r \<and> uint r = 3000000000 \<and> sint r = - 1294967296)"
proof -
  have d: "list_all is_digit ''3000000000''" by (simp add: is_digit_def)
  have v: "decimal_value ''3000000000'' = 3000000000" by (simp add: decimal_value_def)
  from TryParseInt_wraps [of "''3000000000''"] d
  obtain r where r: "TryParseInt ''3000000000'' = Some r"
      "uint r = int (decimal_value ''3000000000'') mod 2 ^ 32"
      "sint r = (if uint r < 2 ^ 31 then uint r else uint r - 2 ^ 32)"
    by blast
  from r(2) have u: "uint r = 3000000000" by (simp add: v)
  with r(3) have "sint r = - 1294967296" by simp
  with d r(1) u show ?thesis by simp
qed

section \<open>Properties of the resolver\<close>

subsection \<open>A path that parses is no sentinel\<close>

lemma TryParse_body_no_at:
  "c \<noteq> CHR ''@'' \<Longrightarrow> TryParse_body s c rest = Inr s' \<Longrightarrow> lWorldName s' = lWorldName s"
  by (auto simp: TryParse_body_def TryParse_append_def
      split: if_splits option.splits ECurrentFillingMode.splits)

lemma TryParse_loop_no_at:
  "CHR ''@'' \<notin> set cs \<Longrightarrow> TryParse_loop s cs = Inr s' \<Longrightarrow> lWorldName s' = lWorldName s"
proof (induction cs arbitrary: s)
  case Nil
  then show ?case by simp
next
  case (Cons c cs)
  from Cons.prems(2) obtain s1 where b: "TryParse_body s c cs = Inr s1"
    and l: "TryParse_loop s1 cs = Inr s'"
    by (auto split: sum.splits)
  from Cons.prems(1) have "c \<noteq> CHR ''@''" and "CHR ''@'' \<notin> set cs" by auto
  with b l Cons.IH [of s1] TryParse_body_no_at [of c s cs s1] show ?case by simp
qed

lemma TryParse_no_at: "CHR ''@'' \<notin> set Path \<Longrightarrow> TryParse Path \<noteq> Inr r"
proof
  assume n: "CHR ''@'' \<notin> set Path" and p: "TryParse Path = Inr r"
  from p obtain s where s: "TryParse_loop TryParse_init Path = Inr s" and w: "lWorldName s \<noteq> []"
    by (auto simp: TryParse_def split: sum.splits if_splits)
  from TryParse_loop_no_at [OF n s] have "lWorldName s = []" by (simp add: TryParse_init_def)
  with w show False by simp
qed

lemma LowerAscii_at: "LowerAscii CHR ''@'' = CHR ''@''"
  by (simp add: LowerAscii_def)

lemma FString_eq_no_at:
  assumes "FString_eq Path S" and "CHR ''@'' \<notin> set (map LowerAscii S)"
  shows "CHR ''@'' \<notin> set Path"
proof
  assume "CHR ''@'' \<in> set Path"
  then have "LowerAscii CHR ''@'' \<in> set (map LowerAscii Path)" by (simp del: LowerAscii_at)
  with assms show False by (simp add: FString_eq_def LowerAscii_at)
qed

lemma sentinel_lower:
  "CHR ''@'' \<notin> set (map LowerAscii ''[invalid world]'')"
  "CHR ''@'' \<notin> set (map LowerAscii ''[invalid level]'')"
  "CHR ''@'' \<notin> set (map LowerAscii ''[invalid actor]'')"
  by code_simp+

lemma TryParse_not_sentinel: "TryParse Path = Inr r \<Longrightarrow> \<not> is_sentinel Path"
proof
  assume p: "TryParse Path = Inr r" and s: "is_sentinel Path"
  from s have "CHR ''@'' \<notin> set Path"
    unfolding is_sentinel_def
    using FString_eq_no_at [OF _ sentinel_lower(1)] FString_eq_no_at [OF _ sentinel_lower(2)]
      FString_eq_no_at [OF _ sentinel_lower(3)]
    by auto
  with p TryParse_no_at show False by blast
qed

lemma TryParse_lengths:
  "TryParse Path = Inr r \<Longrightarrow> length (ComponentNames r) = length (ComponentIndices r)"
  by (auto simp: TryParse_def split: sum.splits if_splits)

lemma Find_after_parse:
  assumes "TryParse Path = Inr r"
  shows "FindActorComponentByPath h li ai Path =
           Resolve (\<lambda>n. n \<noteq> 1) ''Only one component layer should be specified''
             skip_ActorComponent h [] r"
    and "FindSceneComponentByPath h li ai Path =
           Resolve (\<lambda>n. n = 0) ''At least one component layer should be specified''
             skip_SceneComponent h [] r"
  using assms TryParse_not_sentinel [OF assms]
  by (simp_all add: FindActorComponentByPath_def FindSceneComponentByPath_def ParseAndLog_def)

subsection \<open>The scan and the spec's occurrence index\<close>





lemma Resolve_located:
  "LocateActor h r = Inr None \<Longrightarrow> Resolve bad_arity message skip h log r = (log, Inr None)"
  "LocateActor h r = Inr (Some A) \<Longrightarrow>
     Resolve bad_arity message skip h log r = ComponentStage bad_arity message skip log r A"
  by (simp_all add: Resolve_def)


subsection \<open>What the walk can fail with\<close>

lemma FindMatching_failure:
  assumes "\<And>X e. skip X = Inl e \<Longrightarrow> e = NullDereference"
  shows "FindMatching skip k Xs M hit = Inl e \<Longrightarrow> e = NullDereference"
proof (induction Xs arbitrary: hit)
  case Nil
  then show ?case by simp
next
  case (Cons X Xs)
  then show ?case
    using assms [of X] by (auto split: sum.splits if_splits)
qed

lemma ComponentWalk_failure:
  assumes "\<And>X N e. skip X N = Inl e \<Longrightarrow> e = NullDereference"
  shows "ComponentWalk skip Cs steps M = Inl e \<Longrightarrow> e = NullDereference"
proof (induction steps arbitrary: M)
  case Nil
  then show ?case by simp
next
  case (Cons step steps)
  obtain N k where st: "step = (N, k)" by (cases step)
  show ?case
  proof (cases "FindMatching (\<lambda>C. skip C N) (sint k) Cs M 0")
    case (Inl e')
    with Cons.prems st have "e = e'" by simp
    moreover from FindMatching_failure [of "\<lambda>C. skip C N", OF _ Inl] assms
    have "e' = NullDereference" by blast
    ultimately show ?thesis by simp
  next
    case (Inr res)
    obtain M' hit where res: "res = (M', hit)" by (cases res)
    from Cons.prems st Inr res have "ComponentWalk skip Cs steps M' = Inl e"
      by (simp split: if_splits)
    then show ?thesis by (rule Cons.IH)
  qed
qed

lemma skip_failure:
  "skip_ActorComponent X N = Inl e \<Longrightarrow> e = NullDereference"
  "skip_SceneComponent X N = Inl e \<Longrightarrow> e = NullDereference"
  by (auto simp: skip_ActorComponent_def skip_SceneComponent_def other_name_def
      split: option.splits if_splits)

lemma ComponentWalk_not_thrown:
  "ComponentWalk skip_ActorComponent Cs steps M \<noteq> Inl (Thrown m)"
  "ComponentWalk skip_SceneComponent Cs steps M \<noteq> Inl (Thrown m)"
  using ComponentWalk_failure [of skip_ActorComponent Cs steps M "Thrown m"]
    ComponentWalk_failure [of skip_SceneComponent Cs steps M "Thrown m"] skip_failure
  by blast+

subsection \<open>Facts of the small scenes\<close>

lemma scene_parse:
  "TryParse ''W@L[0]:/A[0]->Mover[0]/'' =
     Inr \<lparr>WorldName = ''W'', LevelName = ''L'', LevelIndex = 0, ActorName = ''A'',
          ActorIndex = 0, ComponentNames = [''Mover''], ComponentIndices = [0]\<rparr>"
  by code_simp




lemma scene_components:
  "GetAllComponentsInActor scene_A = Inr [Some scene_Root, Some scene_Mesh, Some scene_Mover]"
  by code_simp

lemma scene_walk:
  "ComponentWalk skip_ActorComponent [Some scene_Root, Some scene_Mesh, Some scene_Mover]
     [(''Mover'', 0)] None = Inr (Some scene_Mover)"
  by code_simp

lemma scene_located:
  "LocateActor scene_Host
     \<lparr>WorldName = ''W'', LevelName = ''L'', LevelIndex = 0, ActorName = ''A'',
      ActorIndex = 0, ComponentNames = [''Mover''], ComponentIndices = [0]\<rparr> =
   Inr (Some scene_A)"
  by code_simp

subsection \<open>Level and actor\<close>




subsection \<open>Arity of the component chain\<close>

text \<open>
  C8. On a path that parses and reaches the component stage (the code has found the
  world, the level and the actor \<open>A\<close>, and has the sorted components \<open>Cs\<close> of \<open>A\<close>),
  \<^verbatim>\<open>FindActorComponentByPath\<close> throws exactly when the number of component steps
  differs from one, and \<^verbatim>\<open>FindSceneComponentByPath\<close> exactly when it is zero; with a
  conforming number of steps nothing is thrown and the result is that of the walk over
  \<open>Cs\<close>.
\<close>

theorem Find_arity:
  assumes "TryParse Path = Inr r"
    and "LocateActor h r = Inr (Some A)"
    and "GetAllComponentsInActor A = Inr Cs"
  shows "((\<exists>m. snd (FindActorComponentByPath h li ai Path) = Inl (Thrown m)) \<longleftrightarrow>
            length (ComponentNames r) \<noteq> 1) \<and>
         ((\<exists>m. snd (FindSceneComponentByPath h li ai Path) = Inl (Thrown m)) \<longleftrightarrow>
            length (ComponentNames r) = 0) \<and>
         (length (ComponentNames r) = 1 \<longrightarrow>
            FindActorComponentByPath h li ai Path =
              ([], ComponentWalk skip_ActorComponent Cs
                     (zip (ComponentNames r) (ComponentIndices r)) None)) \<and>
         (length (ComponentNames r) \<noteq> 0 \<longrightarrow>
            FindSceneComponentByPath h li ai Path =
              ([], ComponentWalk skip_SceneComponent Cs
                     (zip (ComponentNames r) (ComponentIndices r)) None))"
  using TryParse_lengths [OF assms(1)] assms(3)
  by (simp add: Find_after_parse [OF assms(1)] Resolve_located(2) [OF assms(2)]
      ComponentStage_def ComponentWalk_not_thrown)

theorem Find_arity_witness:
  "TryParse ''W@L[0]:/A[0]->Mover[0]/'' =
     Inr \<lparr>WorldName = ''W'', LevelName = ''L'', LevelIndex = 0, ActorName = ''A'',
          ActorIndex = 0, ComponentNames = [''Mover''], ComponentIndices = [0]\<rparr> \<and>
   LocateActor scene_Host
     \<lparr>WorldName = ''W'', LevelName = ''L'', LevelIndex = 0, ActorName = ''A'',
      ActorIndex = 0, ComponentNames = [''Mover''], ComponentIndices = [0]\<rparr> =
     Inr (Some scene_A) \<and>
   GetAllComponentsInActor scene_A =
     Inr [Some scene_Root, Some scene_Mesh, Some scene_Mover] \<and>
   (\<nexists>m. snd (FindActorComponentByPath scene_Host 0 0 ''W@L[0]:/A[0]->Mover[0]/'') =
         Inl (Thrown m)) \<and>
   (\<nexists>m. snd (FindSceneComponentByPath scene_Host 0 0 ''W@L[0]:/A[0]->Mover[0]/'') =
         Inl (Thrown m)) \<and>
   FindActorComponentByPath scene_Host 0 0 ''W@L[0]:/A[0]->Mover[0]/'' =
     ([], Inr (Some scene_Mover))"
  using Find_arity [OF scene_parse scene_located scene_components, of 0 0]
  by (simp add: scene_parse scene_located scene_components scene_walk
        ComponentWalk_not_thrown del: ComponentWalk.simps)

subsection \<open>Sentinel paths\<close>

text \<open>
  C5. The claim: on each of \<^verbatim>\<open>[invalid world]\<close>, \<^verbatim>\<open>[invalid level]\<close> and
  \<^verbatim>\<open>[invalid actor]\<close> the three resolvers return \<^verbatim>\<open>nullptr\<close> and log nothing.
  \<^verbatim>\<open>FindUActorByPath\<close> has no test for \<^verbatim>\<open>[invalid actor]\<close>, unlike the two other
  resolvers: it parses the sentinel, the parse fails, and the error is logged, whatever
  the host.
\<close>

theorem FindUActorByPath_invalid_actor_logs:
  "fst (FindUActorByPath h li ai ''[invalid actor]'') = [''Missing required path components''] \<and>
   FindActorComponentByPath h li ai ''[invalid actor]'' = ([], Inr None) \<and>
   FindSceneComponentByPath h li ai ''[invalid actor]'' = ([], Inr None)"
proof -
  have p: "TryParse ''[invalid actor]'' = Inl ''Missing required path components''"
    by code_simp
  have n: "\<not> FString_eq ''[invalid actor]'' ''[invalid world]''"
      "\<not> FString_eq ''[invalid actor]'' ''[invalid level]''"
    by code_simp+
  have "fst (FindUActorByPath h li ai ''[invalid actor]'') = [''Missing required path components'']"
    by (simp add: FindUActorByPath_def ParseAndLog_def p n split: option.splits)
  then show ?thesis
    by (simp add: FindActorComponentByPath_def FindSceneComponentByPath_def is_sentinel_def
        FString_eq_def)
qed

subsection \<open>A step of the chain that finds nothing\<close>

text \<open>
  C3. The claim: when the scan of some step exhausts the components without reaching
  the step's index, \<^verbatim>\<open>FindSceneComponentByPath\<close> returns \<^verbatim>\<open>nullptr\<close>, never a component
  matched by an earlier step. The test after the scan is \<^verbatim>\<open>sameNumberHit < Index\<close>,
  which does not hold when the scan ends with exactly \<open>Index\<close> hits, and
  \<^verbatim>\<open>MatchingComponent\<close> is not reset between the steps. In the small scene no
  component is named \<^verbatim>\<open>Nope\<close>, the scan for \<^verbatim>\<open>Nope[0]\<close> ends with no match and 0
  hits, and the call returns \<^verbatim>\<open>Root\<close>, matched by the step before.
\<close>

theorem FindSceneComponentByPath_returns_earlier_match:
  "TryParse ''W@L[0]:/A[0]->Root[0]/Nope[0]/'' =
     Inr \<lparr>WorldName = ''W'', LevelName = ''L'', LevelIndex = 0, ActorName = ''A'',
          ActorIndex = 0, ComponentNames = [''Root'', ''Nope''], ComponentIndices = [0, 0]\<rparr> \<and>
   GetAllComponentsInActor scene_A =
     Inr [Some scene_Root, Some scene_Mesh, Some scene_Mover] \<and>
   FindMatching (\<lambda>C. skip_SceneComponent C ''Nope'') 0
     [Some scene_Root, Some scene_Mesh, Some scene_Mover] None 0 = Inr (None, 0) \<and>
   FindSceneComponentByPath scene_Host 0 0 ''W@L[0]:/A[0]->Root[0]/Nope[0]/'' =
     ([], Inr (Some scene_Root))"
  by code_simp

section \<open>Properties of the formatter\<close>

text \<open>
  C4. The claim: the index that \<^verbatim>\<open>GetWorldPath\<close> writes for a component is its
  occurrence index among the components of the owner that have its name, in the
  array sorted by unique id. \<^verbatim>\<open>GetIndexOfSameComponent\<close> compares pointers, not names,
  and returns the position in the whole array. \<^verbatim>\<open>Mover\<close> is the only component of its
  name, at occurrence index 0, and its path ends in \<^verbatim>\<open>Mover[2]\<close>; \<^verbatim>\<open>Mesh\<close> likewise is
  written \<^verbatim>\<open>Mesh[1]\<close> in the attach chain. The resolvers read the index as an
  occurrence index: with the \<^verbatim>\<open>/\<close> that makes the parser commit the last step, the
  path written for \<^verbatim>\<open>Mover\<close> resolves to nothing, where \<^verbatim>\<open>Mover[0]\<close> resolves to it, and
  the path written for \<^verbatim>\<open>Mesh\<close> resolves to \<^verbatim>\<open>Root\<close>.
\<close>

theorem GetWorldPath_writes_array_position:
  "GetAllComponentsInActor scene_A =
     Inr [Some scene_Root, Some scene_Mesh, Some scene_Mover] \<and>
   occurrence_index [scene_Root, scene_Mesh, scene_Mover] scene_Mover = 0 \<and>
   GetIndexOfSameComponent scene_Host scene_Mover = Inr 2 \<and>
   GetWorldPath_UActorComponent scene_Host (Some scene_Mover) =
     Some (Inr ''W@L[0]:/A[0]->Mover[2]'') \<and>
   FindActorComponentByPath scene_Host 0 0 ''W@L[0]:/A[0]->Mover[2]/'' = ([], Inr None) \<and>
   FindActorComponentByPath scene_Host 0 0 ''W@L[0]:/A[0]->Mover[0]/'' =
     ([], Inr (Some scene_Mover)) \<and>
   occurrence_index [scene_Root, scene_Mesh, scene_Mover] scene_Mesh = 0 \<and>
   GetWorldPath_UActorComponent scene_Host (Some scene_Mesh) =
     Some (Inr ''W@L[0]:/A[0]->Root[0]/Mesh[1]'') \<and>
   FindSceneComponentByPath scene_Host 0 0 ''W@L[0]:/A[0]->Root[0]/Mesh[1]/'' =
     ([], Inr (Some scene_Root))"
  by code_simp

end
